theory Spec2Isabelle
  imports Main
begin

section \<open>The session and view-state store\<close>

text \<open>
  The store module \<open>useStore\<close> is a zustand container: one object of fields, and
  operations that each call \<open>set\<close> once with the fields they replace. The variant
  modelled here is the one the toolbar reads (it is the only one that defines
  \<open>isLoading\<close> and the PDF modal slice). Every operation becomes a function from the
  store to the new store; a single \<open>set\<close> call is a single record update.

  An extraction result is opaque to the store and arrives as JSON from the backend;
  \<open>currentFile\<close> starts as \<open>null\<close>.
\<close>

datatype json =
    JNull
  | JBool bool
  | JNum int
  | JStr string
  | JArr "json list"
  | JObj "(string \<times> json) list"

record file_record =
  id' :: string
  name :: string
  date :: string

record session =
  fileId :: string
  data :: json

record store =
  activeTab :: string
  isLoading :: bool
  files :: "file_record list"
  sessions :: "session list"
  currentFile :: json
  sidebarOpen :: bool
  currentPage :: int
  selectedNodeId :: "string option"
  pdfViewerOpen :: bool
  pdfViewerUrl :: "string option"
  pdfViewerTitle :: "string option"
  pdfViewerPage :: int

text \<open>The object literal passed to \<open>create\<close>: the initial value of every field.\<close>

definition initial_store :: store where
  "initial_store =
     \<lparr> activeTab = ''summary'',
       isLoading = False,
       files = [],
       sessions = [],
       currentFile = JNull,
       sidebarOpen = True,
       currentPage = 1,
       selectedNodeId = None,
       pdfViewerOpen = False,
       pdfViewerUrl = None,
       pdfViewerTitle = None,
       pdfViewerPage = 1 \<rparr>"

subsection \<open>Independent setters\<close>

definition setActiveTab :: "string \<Rightarrow> store \<Rightarrow> store" where
  "setActiveTab tab s = s\<lparr>activeTab := tab\<rparr>"

definition setLoading :: "bool \<Rightarrow> store \<Rightarrow> store" where
  "setLoading status s = s\<lparr>isLoading := status\<rparr>"

definition toggleSidebar :: "store \<Rightarrow> store" where
  "toggleSidebar s = s\<lparr>sidebarOpen := \<not> sidebarOpen s\<rparr>"

definition setCurrentPage :: "int \<Rightarrow> store \<Rightarrow> store" where
  "setCurrentPage page s = s\<lparr>currentPage := page\<rparr>"

definition setSelectedNodeId :: "string option \<Rightarrow> store \<Rightarrow> store" where
  "setSelectedNodeId i s = s\<lparr>selectedNodeId := i\<rparr>"

subsection \<open>Uploading a file\<close>

text \<open>
  \<open>uploadFile\<close> reads two things from its environment: the text of
  \<open>Math.random().toString(36)\<close> and the text of \<open>new Date().toISOString()\<close>. Both are
  inputs of the model. What the code itself computes is \<open>substring(2, 9)\<close> of the
  first and \<open>split("T")[0]\<close> of the second.
\<close>

record upload_env =
  random_text :: string
  iso_now :: string

text \<open>The browser \<open>File\<close> handed to \<open>uploadFile\<close>; only its \<open>name\<close> is read.\<close>

record file_arg =
  file_name :: string

text \<open>
  \<open>String.prototype.substring(a, b)\<close> for non-negative indices: the two indices are
  swapped when \<open>a > b\<close>, and both are clipped to the length of the string.
\<close>

definition substring :: "nat \<Rightarrow> nat \<Rightarrow> string \<Rightarrow> string" where
  "substring a b str = take (max a b - min a b) (drop (min a b) str)"

text \<open>\<open>str.split("T")[0]\<close>: everything before the first \<open>T\<close>, or the whole string.\<close>

definition before_T :: "string \<Rightarrow> string" where
  "before_T str = takeWhile (\<lambda>c. c \<noteq> CHR ''T'') str"

definition new_id :: "upload_env \<Rightarrow> string" where
  "new_id env = substring 2 9 (random_text env)"

definition uploadFile :: "upload_env \<Rightarrow> file_arg \<Rightarrow> store \<Rightarrow> string \<times> store" where
  "uploadFile env file s =
     (let i = new_id env
      in (i, s\<lparr>files := \<lparr>id' = i, name = file_name file, date = before_T (iso_now env)\<rparr>
                          # files s\<rparr>))"

subsection \<open>Sessions and the active document\<close>

definition addSession :: "string \<Rightarrow> json \<Rightarrow> store \<Rightarrow> store" where
  "addSession fid d s =
     s\<lparr>sessions := sessions s @ [\<lparr>fileId = fid, data = d\<rparr>],
       currentFile := d,
       currentPage := 1\<rparr>"

text \<open>\<open>sessions.find((s) => s.fileId === fileId)\<close>: the first match from the front.\<close>

definition find_session :: "string \<Rightarrow> session list \<Rightarrow> session option" where
  "find_session fid ss = find (\<lambda>x. fileId x = fid) ss"

definition loadSession :: "string \<Rightarrow> store \<Rightarrow> store" where
  "loadSession fid s =
     (case find_session fid (sessions s) of
        Some x \<Rightarrow> s\<lparr>currentFile := data x, currentPage := 1\<rparr>
      | None \<Rightarrow> s)"

definition setCurrentFile :: "json \<Rightarrow> store \<Rightarrow> store" where
  "setCurrentFile d s = s\<lparr>currentFile := d, currentPage := 1\<rparr>"

subsection \<open>The PDF modal viewer\<close>

text \<open>
  \<open>openPDFViewer(url, title, page = 1)\<close>: the default applies when the third argument
  is omitted (or \<open>undefined\<close>), which is \<open>None\<close> here.
\<close>

definition openPDFViewer :: "string option \<Rightarrow> string option \<Rightarrow> int option \<Rightarrow> store \<Rightarrow> store" where
  "openPDFViewer url title page s =
     s\<lparr>pdfViewerOpen := True,
       pdfViewerUrl := url,
       pdfViewerTitle := title,
       pdfViewerPage := (case page of None \<Rightarrow> 1 | Some p \<Rightarrow> p)\<rparr>"

definition closePDFViewer :: "store \<Rightarrow> store" where
  "closePDFViewer s =
     s\<lparr>pdfViewerOpen := False,
       pdfViewerUrl := None,
       pdfViewerTitle := None,
       pdfViewerPage := 1\<rparr>"

subsection \<open>Sequences of operations\<close>

datatype action =
    SetActiveTab string
  | SetLoading bool
  | UploadFile upload_env file_arg
  | AddSession string json
  | LoadSession string
  | SetCurrentFile json
  | ToggleSidebar
  | SetCurrentPage int
  | SetSelectedNodeId "string option"
  | OpenPDFViewer "string option" "string option" "int option"
  | ClosePDFViewer

fun dispatch :: "action \<Rightarrow> store \<Rightarrow> store" where
  "dispatch (SetActiveTab tab) s = setActiveTab tab s"
| "dispatch (SetLoading b) s = setLoading b s"
| "dispatch (UploadFile env file) s = snd (uploadFile env file s)"
| "dispatch (AddSession fid d) s = addSession fid d s"
| "dispatch (LoadSession fid) s = loadSession fid s"
| "dispatch (SetCurrentFile d) s = setCurrentFile d s"
| "dispatch ToggleSidebar s = toggleSidebar s"
| "dispatch (SetCurrentPage p) s = setCurrentPage p s"
| "dispatch (SetSelectedNodeId i) s = setSelectedNodeId i s"
| "dispatch (OpenPDFViewer url title page) s = openPDFViewer url title page s"
| "dispatch ClosePDFViewer s = closePDFViewer s"

text \<open>The calls of a list are made in order, the first one first.\<close>

fun run :: "action list \<Rightarrow> store \<Rightarrow> store" where
  "run [] s = s"
| "run (a # as) s = run as (dispatch a s)"

text \<open>A list of uploads, with the identifiers the calls return, in call order.\<close>

fun upload_all :: "(upload_env \<times> file_arg) list \<Rightarrow> store \<Rightarrow> string list \<times> store" where
  "upload_all [] s = ([], s)"
| "upload_all ((env, file) # cs) s =
     (let (i, s') = uploadFile env file s;
          (is, s'') = upload_all cs s'
      in (i # is, s''))"

text \<open>The page argument of a call, when the call is \<open>setCurrentPage\<close>, is at least 1.\<close>

fun page_arg_ok :: "action \<Rightarrow> bool" where
  "page_arg_ok (SetCurrentPage p) = (1 \<le> p)"
| "page_arg_ok _ = True"

section \<open>Properties of the store\<close>

subsection \<open>Session lookup\<close>

lemma find_session_append_found:
  "find_session fid xs = Some x \<Longrightarrow> find_session fid (xs @ ys) = Some x"
  unfolding find_session_def by (induction xs) (auto split: if_splits)

lemma find_session_append_missing:
  "find_session fid xs = None \<Longrightarrow> find_session fid (xs @ ys) = find_session fid ys"
  unfolding find_session_def by (induction xs) (auto split: if_splits)

lemma find_session_None:
  "fid \<notin> fileId ` set ss \<Longrightarrow> find_session fid ss = None"
  unfolding find_session_def by (induction ss) auto

lemma sessions_uploadFile: "sessions (snd (uploadFile env file s)) = sessions s"
  by (simp add: uploadFile_def Let_def)

lemma sessions_loadSession: "sessions (loadSession fid s) = sessions s"
  by (simp add: loadSession_def split: option.split)

text \<open>No operation removes or reorders sessions, so a lookup that hits keeps its answer.\<close>

lemma dispatch_keeps_found:
  "find_session fid (sessions s) = Some x \<Longrightarrow> find_session fid (sessions (dispatch a s)) = Some x"
proof (cases a)
  case (AddSession g d)
  assume "find_session fid (sessions s) = Some x"
  then show ?thesis
    using AddSession by (simp add: addSession_def find_session_append_found)
qed (simp_all add: setActiveTab_def setLoading_def sessions_uploadFile sessions_loadSession
      setCurrentFile_def toggleSidebar_def setCurrentPage_def setSelectedNodeId_def
      openPDFViewer_def closePDFViewer_def)

lemma run_keeps_found:
  "find_session fid (sessions s) = Some x \<Longrightarrow> find_session fid (sessions (run acts s)) = Some x"
  by (induction acts arbitrary: s) (simp_all add: dispatch_keeps_found)

lemma addSession_found_fresh:
  "fid \<notin> fileId ` set (sessions s) \<Longrightarrow>
   find_session fid (sessions (addSession fid d s)) = Some \<lparr>fileId = fid, data = d\<rparr>"
  by (simp add: addSession_def find_session_append_missing find_session_None)
     (simp add: find_session_def)

text \<open>
  C1 (as amended). When several sessions share a \<open>fileId\<close>, \<open>loadSession\<close> resolves to the
  one appended first: if no session for \<open>fid\<close> exists yet, then after \<open>addSession(fid, d1)\<close>,
  any further operations, \<open>addSession(fid, d2)\<close> and any further operations again,
  \<open>loadSession(fid)\<close> sets \<open>currentFile\<close> to \<open>d1\<close>.
\<close>

theorem loadSession_first_write_wins:
  assumes "fid \<notin> fileId ` set (sessions s)"
  shows "currentFile (loadSession fid
           (run (AddSession fid d1 # acts1 @ AddSession fid d2 # acts2) s)) = d1"
proof -
  let ?x = "\<lparr>fileId = fid, data = d1\<rparr>"
  have "find_session fid (sessions (addSession fid d1 s)) = Some ?x"
    using assms by (rule addSession_found_fresh)
  then have "find_session fid
      (sessions (run (acts1 @ AddSession fid d2 # acts2) (addSession fid d1 s))) = Some ?x"
    by (rule run_keeps_found)
  then show ?thesis
    by (simp add: loadSession_def)
qed

text \<open>
  The amended C1 at a concrete input: a fresh store, the same id added twice with a page
  change in between.
\<close>

theorem loadSession_first_write_wins_witness:
  "''f1'' \<notin> fileId ` set (sessions initial_store) \<and>
   currentFile (loadSession ''f1''
     (run (AddSession ''f1'' (JStr ''d1'') # [SetCurrentPage 4] @ AddSession ''f1'' (JStr ''d2'') # [])
        initial_store)) = JStr ''d1''"
proof -
  have h: "''f1'' \<notin> fileId ` set (sessions initial_store)"
    by (simp add: initial_store_def)
  show ?thesis
    using h loadSession_first_write_wins
      [OF h, of "JStr ''d1''" "[SetCurrentPage 4]" "JStr ''d2''" "[]"]
    by simp
qed

text \<open>
  C1 as stated fails: after \<open>addSession('f1', 'd1')\<close> and \<open>addSession('f1', 'd2')\<close> on a
  fresh store, \<open>loadSession('f1')\<close> does not make \<open>'d2'\<close> the current file.
\<close>

theorem loadSession_last_write_counterexample:
  "currentFile (loadSession ''f1''
     (run [AddSession ''f1'' (JStr ''d1''), AddSession ''f1'' (JStr ''d2'')] initial_store))
   \<noteq> JStr ''d2''"
  by (simp add: loadSession_def addSession_def find_session_def initial_store_def)

subsection \<open>The page number\<close>

lemma currentPage_dispatch:
  "page_arg_ok a \<Longrightarrow> 1 \<le> currentPage s \<Longrightarrow> 1 \<le> currentPage (dispatch a s)"
  by (cases a)
     (simp_all add: setActiveTab_def setLoading_def uploadFile_def Let_def addSession_def
        loadSession_def setCurrentFile_def toggleSidebar_def setCurrentPage_def
        setSelectedNodeId_def openPDFViewer_def closePDFViewer_def split: option.split)

lemma currentPage_run:
  "list_all page_arg_ok acts \<Longrightarrow> 1 \<le> currentPage s \<Longrightarrow> 1 \<le> currentPage (run acts s)"
  by (induction acts arbitrary: s) (simp_all add: currentPage_dispatch)

text \<open>
  C2 (as amended). In every state reached from the initial state by a sequence of store
  operations in which each \<open>setCurrentPage\<close> call is given a page of at least 1,
  \<open>currentPage\<close> is at least 1.
\<close>

theorem currentPage_ge_1_when_page_args_ge_1:
  assumes "list_all page_arg_ok acts"
  shows "1 \<le> currentPage (run acts initial_store)"
proof -
  have "1 \<le> currentPage initial_store"
    by (simp add: initial_store_def)
  with assms show ?thesis
    by (rule currentPage_run)
qed

text \<open>The amended C2 on a run that moves the page, adds a session and reloads it.\<close>

theorem currentPage_ge_1_when_page_args_ge_1_witness:
  "list_all page_arg_ok
     [SetCurrentPage 5, AddSession ''X'' JNull, SetCurrentPage 2, LoadSession ''X'', ToggleSidebar] \<and>
   1 \<le> currentPage (run
     [SetCurrentPage 5, AddSession ''X'' JNull, SetCurrentPage 2, LoadSession ''X'', ToggleSidebar]
     initial_store)"
proof -
  have h: "list_all page_arg_ok
     [SetCurrentPage 5, AddSession ''X'' JNull, SetCurrentPage 2, LoadSession ''X'', ToggleSidebar]"
    by simp
  show ?thesis
    using h currentPage_ge_1_when_page_args_ge_1 [OF h] by simp
qed

text \<open>
  C2 as stated fails: \<open>setCurrentPage\<close> stores its argument unchecked, so
  \<open>setCurrentPage(0)\<close> on the initial store leaves a page below 1.
\<close>

theorem setCurrentPage_breaks_invariant_counterexample:
  "\<not> 1 \<le> currentPage (run [SetCurrentPage 0] initial_store)"
  by (simp add: setCurrentPage_def)

subsection \<open>Adding a session\<close>

lemma sessions_grow: "sessions (addSession fid d s) \<noteq> sessions s"
  by (simp add: addSession_def)

text \<open>
  C3 (as amended). \<open>addSession\<close> with an empty \<open>fileId\<close> raises no error and is handled
  like any other id: it is never a no-op, it appends the session with the empty id,
  makes \<open>data\<close> the current file and sets the page to 1.
\<close>

theorem addSession_empty_fileId_appends:
  "addSession [] d s \<noteq> s \<and>
   sessions (addSession [] d s) = sessions s @ [\<lparr>fileId = [], data = d\<rparr>] \<and>
   currentFile (addSession [] d s) = d \<and>
   currentPage (addSession [] d s) = 1"
proof -
  have "sessions (addSession [] d s) \<noteq> sessions s"
    by (rule sessions_grow)
  then have "addSession [] d s \<noteq> s"
    by auto
  then show ?thesis
    by (simp add: addSession_def)
qed

text \<open>
  C3 as stated fails: \<open>addSession('', 'doc')\<close> changes the initial store.
\<close>

theorem addSession_empty_fileId_counterexample:
  "addSession [] (JStr ''doc'') initial_store \<noteq> initial_store"
  by (simp add: addSession_def initial_store_def)

subsection \<open>Switching the active document\<close>

text \<open>
  C4. Each operation that switches the active document sets \<open>currentFile\<close> and
  \<open>currentPage = 1\<close> in its one update of the store, whatever the page was before:
  \<open>addSession\<close> and \<open>setCurrentFile\<close> always, \<open>loadSession\<close> when the lookup finds a
  session.
\<close>

theorem document_switch_resets_page:
  "currentFile (addSession fid d s) = d \<and> currentPage (addSession fid d s) = 1 \<and>
   currentFile (setCurrentFile d s) = d \<and> currentPage (setCurrentFile d s) = 1 \<and>
   (find_session fid (sessions s) = Some x \<longrightarrow>
      currentFile (loadSession fid s) = data x \<and> currentPage (loadSession fid s) = 1)"
  by (simp add: addSession_def setCurrentFile_def loadSession_def)

text \<open>
  C4 on the scenario of a session \<open>X\<close> whose page had been advanced to 5 before the
  sidebar click reloads it.
\<close>

theorem document_switch_resets_page_witness:
  "find_session ''X''
     (sessions (setCurrentPage 5 (addSession ''X'' (JObj [(''pages'', JArr [])]) initial_store)))
     = Some \<lparr>fileId = ''X'', data = JObj [(''pages'', JArr [])]\<rparr> \<and>
   currentFile (loadSession ''X''
     (setCurrentPage 5 (addSession ''X'' (JObj [(''pages'', JArr [])]) initial_store)))
     = JObj [(''pages'', JArr [])] \<and>
   currentPage (loadSession ''X''
     (setCurrentPage 5 (addSession ''X'' (JObj [(''pages'', JArr [])]) initial_store)))
     = 1 \<and>
   currentPage (setCurrentPage 5 (addSession ''X'' (JObj [(''pages'', JArr [])]) initial_store)) = 5"
proof -
  let ?s = "setCurrentPage 5 (addSession ''X'' (JObj [(''pages'', JArr [])]) initial_store)"
  have h: "find_session ''X'' (sessions ?s)
             = Some \<lparr>fileId = ''X'', data = JObj [(''pages'', JArr [])]\<rparr>"
    by (simp add: find_session_def setCurrentPage_def addSession_def initial_store_def)
  have p: "currentPage ?s = 5"
    by (simp add: setCurrentPage_def)
  show ?thesis
    using h p document_switch_resets_page [of "''X''" "JObj [(''pages'', JArr [])]" ?s
        "\<lparr>fileId = ''X'', data = JObj [(''pages'', JArr [])]\<rparr>"]
    by simp
qed

text \<open>
  C5. When no session has the given \<open>fileId\<close>, \<open>loadSession\<close> returns the store it was
  given: no field changes and nothing is raised.
\<close>

theorem loadSession_miss_is_noop:
  assumes "fid \<notin> fileId ` set (sessions s)"
  shows "loadSession fid s = s"
  using assms by (simp add: loadSession_def find_session_None)

text \<open>C5 on a store that holds a session for \<open>X\<close> only, asked for \<open>Y\<close>.\<close>

theorem loadSession_miss_is_noop_witness:
  "''Y'' \<notin> fileId ` set (sessions (setCurrentPage 5 (addSession ''X'' (JStr ''doc'') initial_store))) \<and>
   loadSession ''Y'' (setCurrentPage 5 (addSession ''X'' (JStr ''doc'') initial_store))
     = setCurrentPage 5 (addSession ''X'' (JStr ''doc'') initial_store)"
proof -
  have h: "''Y'' \<notin> fileId ` set (sessions
             (setCurrentPage 5 (addSession ''X'' (JStr ''doc'') initial_store)))"
    by (simp add: setCurrentPage_def addSession_def initial_store_def)
  show ?thesis
    using h loadSession_miss_is_noop [OF h] by simp
qed

subsection \<open>The PDF modal viewer\<close>

text \<open>
  C6. From any store, \<open>closePDFViewer\<close> leaves the overlay closed with no url, no title
  and page 1; calling it a second time changes nothing.
\<close>

theorem closePDFViewer_resets_overlay:
  "pdfViewerOpen (closePDFViewer s) = False \<and>
   pdfViewerUrl (closePDFViewer s) = None \<and>
   pdfViewerTitle (closePDFViewer s) = None \<and>
   pdfViewerPage (closePDFViewer s) = 1 \<and>
   closePDFViewer (closePDFViewer s) = closePDFViewer s"
  by (simp add: closePDFViewer_def)

text \<open>
  C7. \<open>openPDFViewer\<close> without a page opens the overlay at page 1 from any store: the
  overlay is open, holds the given url and title, its page is 1, and nothing else in the
  store changes. In particular, opening \<open>a.pdf\<close> at page 3, closing, and opening
  \<open>b.pdf\<close> without a page leaves the overlay open on \<open>b.pdf\<close>, titled \<open>Doc2\<close>, at
  page 1: the same store as opening \<open>b.pdf\<close> directly, with nothing of the earlier
  open left behind.
\<close>

theorem openPDFViewer_default_page:
  "pdfViewerOpen (openPDFViewer url title None s) = True \<and>
   pdfViewerUrl (openPDFViewer url title None s) = url \<and>
   pdfViewerTitle (openPDFViewer url title None s) = title \<and>
   pdfViewerPage (openPDFViewer url title None s) = 1 \<and>
   openPDFViewer url title None s
     = s\<lparr>pdfViewerOpen := True, pdfViewerUrl := url, pdfViewerTitle := title,
         pdfViewerPage := 1\<rparr> \<and>
   pdfViewerOpen
     (openPDFViewer (Some ''b.pdf'') (Some ''Doc2'') None
        (closePDFViewer (openPDFViewer (Some ''a.pdf'') (Some ''Doc'') (Some 3) s))) = True \<and>
   pdfViewerUrl
     (openPDFViewer (Some ''b.pdf'') (Some ''Doc2'') None
        (closePDFViewer (openPDFViewer (Some ''a.pdf'') (Some ''Doc'') (Some 3) s)))
     = Some ''b.pdf'' \<and>
   pdfViewerTitle
     (openPDFViewer (Some ''b.pdf'') (Some ''Doc2'') None
        (closePDFViewer (openPDFViewer (Some ''a.pdf'') (Some ''Doc'') (Some 3) s)))
     = Some ''Doc2'' \<and>
   pdfViewerPage
     (openPDFViewer (Some ''b.pdf'') (Some ''Doc2'') None
        (closePDFViewer (openPDFViewer (Some ''a.pdf'') (Some ''Doc'') (Some 3) s))) = 1 \<and>
   openPDFViewer (Some ''b.pdf'') (Some ''Doc2'') None
     (closePDFViewer (openPDFViewer (Some ''a.pdf'') (Some ''Doc'') (Some 3) s))
     = openPDFViewer (Some ''b.pdf'') (Some ''Doc2'') None s"
  by (simp add: openPDFViewer_def closePDFViewer_def)

subsection \<open>File identifiers\<close>

lemma upload_all_ids:
  "fst (upload_all calls s) = map (\<lambda>c. substring 2 9 (random_text (fst c))) calls"
proof (induction calls arbitrary: s)
  case Nil
  show ?case by simp
next
  case (Cons c cs)
  obtain env f where c: "c = (env, f)"
    by (cases c)
  show ?case
    by (simp add: c uploadFile_def new_id_def Let_def case_prod_beta Cons.IH)
qed

text \<open>
  C8 (as amended). The identifiers returned by a sequence of \<open>uploadFile\<close> calls are the
  characters 2 to 8 of each call's \<open>Math.random().toString(36)\<close> text, and they are
  pairwise distinct exactly when those slices are; the store makes no other check.
\<close>

theorem uploadFile_ids_distinct_iff_slices_distinct:
  "fst (upload_all calls s) = map (\<lambda>c. substring 2 9 (random_text (fst c))) calls \<and>
   distinct (fst (upload_all calls s))
     = distinct (map (\<lambda>c. substring 2 9 (random_text (fst c))) calls)"
  by (simp add: upload_all_ids)

text \<open>
  C8 as stated fails: two uploads whose random draw is 0.5 (the text \<open>0.i\<close> in base 36)
  both return the identifier \<open>i\<close>.
\<close>

theorem uploadFile_ids_collide_counterexample:
  "\<not> distinct (fst (upload_all
       [(\<lparr>random_text = ''0.i'', iso_now = ''2025-01-01T00:00:00.000Z''\<rparr>, \<lparr>file_name = ''a.pdf''\<rparr>),
        (\<lparr>random_text = ''0.i'', iso_now = ''2025-01-01T00:00:01.000Z''\<rparr>, \<lparr>file_name = ''b.pdf''\<rparr>)]
       initial_store))"
  by (simp add: uploadFile_def new_id_def Let_def)

subsection \<open>What \<open>addSession\<close> leaves alone\<close>

text \<open>
  C9. \<open>addSession\<close> leaves \<open>activeTab\<close> and \<open>selectedNodeId\<close> as they were: the new store
  is the old one with only \<open>sessions\<close>, \<open>currentFile\<close> and \<open>currentPage\<close> replaced.
\<close>

theorem addSession_frame:
  "activeTab (addSession fid d s) = activeTab s \<and>
   selectedNodeId (addSession fid d s) = selectedNodeId s \<and>
   addSession fid d s
     = s\<lparr>sessions := sessions (addSession fid d s),
         currentFile := currentFile (addSession fid d s),
         currentPage := currentPage (addSession fid d s)\<rparr>"
  by (simp add: addSession_def)

end
